theory Spec2Isabelle
  imports Complex_Main
begin

section \<open>JavaScript values\<close>

text \<open>
  The two source files are untyped JavaScript.  The values that flow through them
  (results of \<^verbatim>\<open>el.data(...)\<close>, constructor options, template context entries) are
  modelled by one datatype of JavaScript values.  An object is the list of its own
  enumerable properties in enumeration order.
\<close>

datatype jsval =
    Undefined
  | Null
  | Bool bool
  | Num real
  | NaN
  | Str string
  | Arr "jsval list"
  | Obj "(string \<times> jsval) list"

type_synonym jsobj = "(string \<times> jsval) list"

datatype error = TypeError | TemplateError

text \<open>Truthiness, as used by \<^verbatim>\<open>||\<close>, \<^verbatim>\<open>&&\<close>, \<^verbatim>\<open>!\<close> and \<^verbatim>\<open>if\<close>: the falsy values are
  \<^verbatim>\<open>undefined\<close>, \<^verbatim>\<open>null\<close>, \<^verbatim>\<open>false\<close>, \<^verbatim>\<open>0\<close>, \<^verbatim>\<open>NaN\<close> and the empty string.\<close>

fun truthy :: "jsval \<Rightarrow> bool" where
  "truthy Undefined = False"
| "truthy Null = False"
| "truthy (Bool b) = b"
| "truthy (Num n) = (n \<noteq> 0)"
| "truthy NaN = False"
| "truthy (Str s) = (s \<noteq> [])"
| "truthy (Arr xs) = True"
| "truthy (Obj kvs) = True"

text \<open>\<^verbatim>\<open>a || b\<close>\<close>

definition js_or :: "jsval \<Rightarrow> jsval \<Rightarrow> jsval" where
  "js_or a b = (if truthy a then a else b)"

text \<open>\<^verbatim>\<open>String.prototype.split\<close> with a one-character separator: the pieces between
  the separators, in order; the empty string gives one empty piece.\<close>

fun split_on :: "char \<Rightarrow> string \<Rightarrow> string list" where
  "split_on c [] = [[]]"
| "split_on c (x # xs) =
     (if x = c then [] # split_on c xs
      else (case split_on c xs of
              [] \<Rightarrow> [[x]]
            | y # ys \<Rightarrow> (x # y) # ys))"

text \<open>\<^verbatim>\<open>v.split(",")\<close> on an arbitrary value: only strings have a \<^verbatim>\<open>split\<close> method;
  calling it on a number, boolean, array or plain object throws a TypeError
  (\<^verbatim>\<open>undefined is not a function\<close>), and so does the property access on
  \<^verbatim>\<open>undefined\<close> or \<^verbatim>\<open>null\<close>.\<close>

fun js_split_comma :: "jsval \<Rightarrow> error + jsval" where
  "js_split_comma (Str s) = Inr (Arr (map Str (split_on CHR '','' s)))"
| "js_split_comma v = Inl TypeError"

section \<open>Flow bootstrap (\<^verbatim>\<open>pay_and_verify.js\<close>)\<close>

text \<open>
  The entry point reads data attributes of the container element with jQuery's
  \<^verbatim>\<open>el.data(name)\<close> and passes them to the root view's constructor.  The container is
  a parameter of the model: a function \<open>el_data\<close> giving, for an attribute name, the value
  that \<^verbatim>\<open>el.data(name)\<close> returns.  That value is \<^verbatim>\<open>undefined\<close> for an absent attribute.
  For a present attribute jQuery returns the attribute's string, except that it converts
  the strings \<^verbatim>\<open>true\<close>, \<^verbatim>\<open>false\<close>, \<^verbatim>\<open>null\<close>, numerals and JSON text to the
  corresponding JavaScript value, so the result is an arbitrary \<^typ>\<open>jsval\<close>.

  The model's result is the options object handed to \<^verbatim>\<open>PayAndVerifyView\<close>; the root
  view itself and its \<^verbatim>\<open>render\<close> are not part of these sources.
\<close>

record intro_step =
  introTitle :: jsval
  introMsg :: jsval
  requirements :: jsval

record make_payment_step =
  courseKey :: jsval
  minPrice :: jsval
  suggestedPrices :: jsval
  currency :: jsval
  purchaseEndpoint :: jsval

record payment_confirmation_step =
  courseName :: jsval
  courseStartDate :: jsval
  coursewareUrl :: jsval

record review_photos_step =
  fullName :: jsval

record step_info =
  intro :: intro_step
  make_payment :: make_payment_step
  payment_confirmation :: payment_confirmation_step
  review_photos :: review_photos_step

record root_options =
  displaySteps :: jsval
  currentStep :: jsval
  stepInfo :: step_info

text \<open>\<^verbatim>\<open>(el.data('course-mode-suggested-prices') || "").split(",")\<close>\<close>

definition suggested_prices :: "(string \<Rightarrow> jsval) \<Rightarrow> error + jsval" where
  "suggested_prices el_data =
     js_split_comma (js_or (el_data ''course-mode-suggested-prices'') (Str ''''))"

text \<open>The object literal is evaluated property by property; the only expression in it
  that can throw is the \<^verbatim>\<open>split\<close> call, and then no options object is produced and the
  root view is never constructed.\<close>

definition pay_and_verify :: "(string \<Rightarrow> jsval) \<Rightarrow> error + root_options" where
  "pay_and_verify el_data =
     (case suggested_prices el_data of
        Inl e \<Rightarrow> Inl e
      | Inr prices \<Rightarrow>
          Inr \<lparr> displaySteps = el_data ''display-steps'',
                currentStep = el_data ''current-step'',
                stepInfo = \<lparr>
                  intro = \<lparr>
                    introTitle = el_data ''intro-title'',
                    introMsg = el_data ''intro-msg'',
                    requirements = el_data ''requirements'' \<rparr>,
                  make_payment = \<lparr>
                    courseKey = el_data ''course-key'',
                    minPrice = el_data ''course-mode-min-price'',
                    suggestedPrices = prices,
                    currency = el_data ''course-mode-currency'',
                    purchaseEndpoint = el_data ''purchase-endpoint'' \<rparr>,
                  payment_confirmation = \<lparr>
                    courseName = el_data ''course-name'',
                    courseStartDate = el_data ''course-start-date'',
                    coursewareUrl = el_data ''courseware-url'' \<rparr>,
                  review_photos = \<lparr>
                    fullName = el_data ''full-name'' \<rparr> \<rparr> \<rparr>)"

text \<open>Containers used below.  A container is given by the list of the attributes it
  carries, each with the value \<^verbatim>\<open>el.data\<close> returns for it; every other attribute is
  absent.\<close>

fun container :: "(string \<times> jsval) list \<Rightarrow> string \<Rightarrow> jsval" where
  "container [] name = Undefined"
| "container ((k, v) # kvs) name = (if name = k then v else container kvs name)"

definition no_attributes :: "string \<Rightarrow> jsval" where
  "no_attributes = container []"

definition three_prices :: "string \<Rightarrow> jsval" where
  "three_prices = container [(''course-mode-suggested-prices'', Str ''10,25,50'')]"

definition one_price :: "string \<Rightarrow> jsval" where
  "one_price = container [(''course-mode-suggested-prices'', Num 10)]"

definition intro_scenario :: "string \<Rightarrow> jsval" where
  "intro_scenario = container
     [(''display-steps'', Arr [Str ''intro-step'', Str ''make-payment-step'']),
      (''current-step'', Str ''intro-step''),
      (''intro-title'', Str ''Verify Your Identity'')]"

section \<open>Step view (\<^verbatim>\<open>views/step_view.js\<close>)\<close>

subsection \<open>Objects\<close>

text \<open>
  Reading and assigning a property of an object.  A property list that names a key
  twice stands for the object in which the later binding has replaced the earlier one
  (as in an object literal), so lookup takes the last binding; assignment overwrites
  the key where it stands, or appends it.
\<close>

fun get_prop :: "jsobj \<Rightarrow> string \<Rightarrow> jsval option" where
  "get_prop [] k = None"
| "get_prop ((k', v) # ob) k =
     (case get_prop ob k of
        Some x \<Rightarrow> Some x
      | None \<Rightarrow> if k = k' then Some v else None)"

definition set_prop :: "string \<Rightarrow> jsval \<Rightarrow> jsobj \<Rightarrow> jsobj" where
  "set_prop k v ob =
     (if k \<in> set (map fst ob)
      then map (\<lambda>(k', v'). if k' = k then (k', v) else (k', v')) ob
      else ob @ [(k, v)])"

text \<open>Underscore's \<^verbatim>\<open>_.extend(obj, source)\<close>:
  \<^verbatim>\<open>for (var prop in source) obj[prop] = source[prop];\<close>\<close>

definition underscore_extend :: "jsobj \<Rightarrow> jsobj \<Rightarrow> jsobj" where
  "underscore_extend ob source = fold (\<lambda>(prop, v) acc. set_prop prop v acc) source ob"

subsection \<open>The view and its effects\<close>

text \<open>
  The fields of a step view: the four fields set by \<^verbatim>\<open>initialize\<close>, the cached
  \<^verbatim>\<open>renderedHtml\<close> (\<^verbatim>\<open>undefined\<close> until \<^verbatim>\<open>handleResponse\<close> assigns the string the
  template engine returned), the HTML content of the root element \<^verbatim>\<open>this.el\<close>, and
  Backbone's event registry \<^verbatim>\<open>this._events\<close>: the callbacks registered on the view, each
  under one event name, in registration order.  (Backbone registers a callback given
  with a space-separated list of names under each of the names, so the names in the
  registry are single names; \<^verbatim>\<open>all\<close> is the catch-all name.)  A callback is named by a
  number.
\<close>

record view =
  templateUrl :: jsval
  stepData :: jsobj
  nextStepNum :: jsval
  nextStepTitle :: jsval
  renderedHtml :: "string option"
  el_html :: string
  listeners :: "(string \<times> nat) list"

text \<open>What a method call does to the outside, in the order it does it: an
  \<^verbatim>\<open>$.ajax\<close> GET request for a URL, a call \<^verbatim>\<open>$(this.el).html(value)\<close>, a call of the
  \<^verbatim>\<open>postRender\<close> hook, a registered callback called with a list of arguments, and an
  exception leaving a response callback.\<close>

datatype event =
    Fetch jsval
  | Html "string option"
  | PostRender
  | Notify nat "jsval list"
  | Uncaught error

text \<open>The argument of \<^verbatim>\<open>initialize\<close>: the options object; a missing field reads as
  \<^verbatim>\<open>undefined\<close> (for \<^verbatim>\<open>stepData\<close>, which is an object when it is given, \<open>None\<close>).\<close>

record options =
  obj_templateUrl :: jsval
  obj_stepData :: "jsobj option"
  obj_nextStepNum :: jsval
  obj_nextStepTitle :: jsval

text \<open>
  \<^verbatim>\<open>
  initialize: function( obj ) {
      this.templateUrl = obj.templateUrl || "";
      this.stepData = obj.stepData || {};
      this.nextStepNum = obj.nextStepNum || "";
      this.nextStepTitle = obj.nextStepTitle || "";
      _.mixin( _s.exports() );
  }
  \<close>
  Backbone's constructor attaches the root element and the empty
  event registry and then calls \<^verbatim>\<open>initialize\<close> with the constructor's arguments; \<open>el0\<close> is
  the content of the root element at that moment (empty for an element Backbone
  creates, the existing content for an \<^verbatim>\<open>el\<close> supplied by the caller).  Constructing the
  view without an argument makes \<^verbatim>\<open>obj.templateUrl\<close> a property access on
  \<^verbatim>\<open>undefined\<close>.  The \<^verbatim>\<open>_.mixin\<close> call changes Underscore's namespace only.
\<close>

fun initialize :: "string \<Rightarrow> options option \<Rightarrow> error + view" where
  "initialize el0 None = Inl TypeError"
| "initialize el0 (Some obj) =
     Inr \<lparr> templateUrl = js_or (obj_templateUrl obj) (Str ''''),
           stepData = (case obj_stepData obj of None \<Rightarrow> [] | Some d \<Rightarrow> d),
           nextStepNum = js_or (obj_nextStepNum obj) (Str ''''),
           nextStepTitle = js_or (obj_nextStepTitle obj) (Str ''''),
           renderedHtml = None,
           el_html = el0,
           listeners = [] \<rparr>"

text \<open>\<^verbatim>\<open>!this.renderedHtml\<close>: true for \<^verbatim>\<open>undefined\<close> and for the empty string.\<close>

fun not_rendered :: "string option \<Rightarrow> bool" where
  "not_rendered None = True"
| "not_rendered (Some s) = (s = [])"

text \<open>
  \<^verbatim>\<open>$(this.el).html(value)\<close>.  With a string, jQuery replaces the element's content by
  it.  With \<^verbatim>\<open>undefined\<close>, jQuery's \<^verbatim>\<open>html\<close> is the reading form of the method and
  writes nothing.
\<close>

fun html :: "string option \<Rightarrow> view \<Rightarrow> view \<times> event list" where
  "html None v = (v, [Html None])"
| "html (Some s) v = (v\<lparr>el_html := s\<rparr>, [Html (Some s)])"

text \<open>\<^verbatim>\<open>postRender\<close> of the base class has an empty body.\<close>

definition postRender :: "view \<Rightarrow> view \<times> event list" where
  "postRender v = (v, [PostRender])"

text \<open>
  \<^verbatim>\<open>
  render: function() {
      if ( !this.renderedHtml && this.templateUrl) {
          $.ajax({ url: this.templateUrl, type: 'GET',
                   context: this, success: this.handleResponse });
      }
      else {
          $( this.el ).html( this.renderedHtml );
          this.postRender();
      }
  }
  \<close>
  The \<^verbatim>\<open>$.ajax\<close> call only registers the request and returns; the response arrives
  in a later turn of the event loop.
\<close>

definition render :: "view \<Rightarrow> view \<times> event list" where
  "render v =
     (if not_rendered (renderedHtml v) \<and> truthy (templateUrl v)
      then (v, [Fetch (templateUrl v)])
      else (let (v1, e1) = html (renderedHtml v) v;
                (v2, e2) = postRender v1
            in (v2, e1 @ e2)))"

text \<open>The context built by \<^verbatim>\<open>handleResponse\<close> before the template is rendered.\<close>

definition context_of :: "view \<Rightarrow> jsobj" where
  "context_of v =
     underscore_extend [(''nextStepNum'', nextStepNum v), (''nextStepTitle'', nextStepTitle v)]
            (stepData v)"

text \<open>
  \<^verbatim>\<open>
  handleResponse: function( data ) {
      var context;
      context = { nextStepNum: this.nextStepNum, nextStepTitle: this.nextStepTitle };
      _.extend( context, this.stepData );
      this.renderedHtml = _.template( data, context );
      $( this.el ).html( this.renderedHtml );
      this.postRender();
  }
  \<close>
  Underscore's \<^verbatim>\<open>_.template(data, context)\<close> is the parameter \<open>template\<close>: it returns
  the rendered string, or throws (a template that names a variable the context lacks),
  and then the statements after it do not run.
\<close>

definition handleResponse ::
  "(string \<Rightarrow> jsobj \<Rightarrow> error + string) \<Rightarrow> view \<Rightarrow> string \<Rightarrow> error + view \<times> event list" where
  "handleResponse template v data =
     (case template data (context_of v) of
        Inl e \<Rightarrow> Inl e
      | Inr rendered \<Rightarrow>
          (let v0 = v\<lparr>renderedHtml := Some rendered\<rparr>;
               (v1, e1) = html (renderedHtml v0) v0;
               (v2, e2) = postRender v1
           in Inr (v2, e1 @ e2)))"

text \<open>The callbacks the registry holds under a name: \<^verbatim>\<open>this._events[name]\<close>.\<close>

definition callbacks :: "string \<Rightarrow> view \<Rightarrow> nat list" where
  "callbacks name v = map snd (filter (\<lambda>r. fst r = name) (listeners v))"

text \<open>Backbone's \<^verbatim>\<open>triggerEvents(events, args)\<close>: every callback of the list is called
  with the arguments, in order.\<close>

definition triggerEvents :: "nat list \<Rightarrow> jsval list \<Rightarrow> event list" where
  "triggerEvents ls args = map (\<lambda>l. Notify l args) ls"

text \<open>
  \<^verbatim>\<open>
  nextStep: function() {
      this.trigger('next-step');
  }
  \<close>
  Backbone's \<^verbatim>\<open>trigger\<close>, called with the single event name and nothing else, calls
  the callbacks registered under \<^verbatim>\<open>next-step\<close> with no argument and then the callbacks
  registered under the catch-all name \<^verbatim>\<open>all\<close> with the event name as their only
  argument.  What a callback does when it is called is not part of \<^verbatim>\<open>nextStep\<close>.
\<close>

definition nextStep :: "view \<Rightarrow> view \<times> event list" where
  "nextStep v =
     (v, triggerEvents (callbacks ''next-step'' v) []
         @ triggerEvents (callbacks ''all'' v) [Str ''next-step''])"

subsection \<open>The event loop\<close>

text \<open>
  A page holds one view, the requests that are in flight (their URLs, oldest first) and
  the log of everything done so far.  Each turn of the single-threaded event loop runs
  to completion: a call of \<^verbatim>\<open>render\<close>, a call of \<^verbatim>\<open>nextStep\<close>, the arrival of a
  successful response for the \<open>i\<close>-th request in flight (jQuery then calls the
  \<^verbatim>\<open>success\<close> callback, \<^verbatim>\<open>handleResponse\<close>, with the body), or the failure of the
  \<open>i\<close>-th request (the \<^verbatim>\<open>$.ajax\<close> call registers no \<^verbatim>\<open>error\<close> callback, so nothing of
  the view runs).
\<close>

record page =
  the_view :: view
  in_flight :: "jsval list"
  trace :: "event list"

datatype turn =
    CallRender
  | CallNextStep
  | Response nat string
  | Failure nat

definition drop_nth :: "nat \<Rightarrow> 'a list \<Rightarrow> 'a list" where
  "drop_nth i xs = take i xs @ drop (Suc i) xs"

fun fetched :: "event list \<Rightarrow> jsval list" where
  "fetched [] = []"
| "fetched (Fetch u # es) = u # fetched es"
| "fetched (e # es) = fetched es"

fun step :: "(string \<Rightarrow> jsobj \<Rightarrow> error + string) \<Rightarrow> page \<Rightarrow> turn \<Rightarrow> page" where
  "step template p CallRender =
     (let (v, es) = render (the_view p)
      in p\<lparr>the_view := v, in_flight := in_flight p @ fetched es, trace := trace p @ es\<rparr>)"
| "step template p CallNextStep =
     (let (v, es) = nextStep (the_view p)
      in p\<lparr>the_view := v, trace := trace p @ es\<rparr>)"
| "step template p (Response i data) =
     (if i < length (in_flight p)
      then (case handleResponse template (the_view p) data of
              Inl e \<Rightarrow> p\<lparr>in_flight := drop_nth i (in_flight p), trace := trace p @ [Uncaught e]\<rparr>
            | Inr (v, es) \<Rightarrow>
                p\<lparr>the_view := v, in_flight := drop_nth i (in_flight p), trace := trace p @ es\<rparr>)
      else p)"
| "step template p (Failure i) =
     (if i < length (in_flight p)
      then p\<lparr>in_flight := drop_nth i (in_flight p)\<rparr>
      else p)"

definition run :: "(string \<Rightarrow> jsobj \<Rightarrow> error + string) \<Rightarrow> page \<Rightarrow> turn list \<Rightarrow> page" where
  "run template p ts = fold (\<lambda>t q. step template q t) ts p"

definition load :: "view \<Rightarrow> page" where
  "load v = \<lparr>the_view = v, in_flight = [], trace = []\<rparr>"

text \<open>A template engine for template texts without placeholders: such a text renders
  to itself in every context.\<close>

definition plain_text :: "string \<Rightarrow> jsobj \<Rightarrow> error + string" where
  "plain_text data ctx = Inr data"

section \<open>Inputs and predicates used in the statements\<close>

text \<open>A value on which \<^verbatim>\<open>(v || "").split(",")\<close> does not throw: a string, or a falsy
  value (replaced by the empty string); \<open>text_of\<close> is the string that is split, the
  value itself when it is a string and the empty-string default otherwise.\<close>

fun splits :: "jsval \<Rightarrow> bool" where
  "splits (Str s) = True"
| "splits v = (\<not> truthy v)"

fun text_of :: "jsval \<Rightarrow> string" where
  "text_of (Str s) = s"
| "text_of v = []"

text \<open>The string of the suggested-prices attribute as the code reads it when
  \<^verbatim>\<open>el.data\<close> hands it on unconverted: the attribute's string when \<^verbatim>\<open>el.data\<close> returns
  a string, the empty-string default when the attribute is absent.\<close>

fun attribute_string :: "jsval \<Rightarrow> string option" where
  "attribute_string Undefined = Some []"
| "attribute_string (Str s) = Some s"
| "attribute_string v = None"

text \<open>\<^verbatim>\<open>Array.prototype.join\<close> with a one-character separator.\<close>

fun js_join :: "char \<Rightarrow> string list \<Rightarrow> string" where
  "js_join c [] = []"
| "js_join c [p] = p"
| "js_join c (p # q # ps) = p @ c # js_join c (q # ps)"

text \<open>A step view with a template, as the root view would construct it on a fresh
  element, and the page once its first fetch-based render has completed.\<close>

definition template_options :: options where
  "template_options =
     \<lparr> obj_templateUrl = Str ''/static/intro_step.underscore'',
       obj_stepData = Some [(''introTitle'', Str ''Verify Your Identity'')],
       obj_nextStepNum = Num 2,
       obj_nextStepTitle = Str ''Make payment'' \<rparr>"

definition template_view :: view where
  "template_view =
     \<lparr> templateUrl = Str ''/static/intro_step.underscore'',
       stepData = [(''introTitle'', Str ''Verify Your Identity'')],
       nextStepNum = Num 2,
       nextStepTitle = Str ''Make payment'',
       renderedHtml = None,
       el_html = [],
       listeners = [] \<rparr>"

definition intro_page :: page where
  "intro_page =
     \<lparr> the_view = template_view\<lparr>renderedHtml := Some ''<h1>Intro</h1>'',
                                     el_html := ''<h1>Intro</h1>''\<rparr>,
       in_flight = [],
       trace = [Fetch (Str ''/static/intro_step.underscore''),
                Html (Some ''<h1>Intro</h1>''), PostRender] \<rparr>"

text \<open>The page once a fetch-based render of an empty template has completed.\<close>

definition blank_page :: page where
  "blank_page =
     \<lparr> the_view = template_view\<lparr>renderedHtml := Some [], el_html := []\<rparr>,
       in_flight = [],
       trace = [Fetch (Str ''/static/intro_step.underscore''), Html (Some []), PostRender] \<rparr>"

text \<open>What a turn logs on a page whose view has cached the HTML \<open>h\<close> and has no
  request in flight: a render call writes \<open>h\<close> and calls the hook, a next-step call
  notifies the listeners, and there is no request that could be answered or fail.\<close>

fun cached_turn :: "string \<Rightarrow> view \<Rightarrow> turn \<Rightarrow> event list" where
  "cached_turn h v CallRender = [Html (Some h), PostRender]"
| "cached_turn h v CallNextStep = snd (nextStep v)"
| "cached_turn h v (Response i data) = []"
| "cached_turn h v (Failure i) = []"

text \<open>A view whose registry holds two callbacks for \<^verbatim>\<open>next-step\<close>, one catch-all
  callback and one callback for another event.\<close>

definition observed_view :: view where
  "observed_view =
     template_view\<lparr>listeners :=
       [(''next-step'', 1), (''all'', 2), (''next-step'', 3), (''other'', 4)]\<rparr>"

text \<open>A step view without a template, constructed on an element that already has
  content (the step container still showing the previous step).\<close>

definition no_template_options :: options where
  "no_template_options =
     \<lparr> obj_templateUrl = Undefined,
       obj_stepData = None,
       obj_nextStepNum = Undefined,
       obj_nextStepTitle = Undefined \<rparr>"

definition stale_view :: view where
  "stale_view =
     \<lparr> templateUrl = Str [],
       stepData = [],
       nextStepNum = Str [],
       nextStepTitle = Str [],
       renderedHtml = None,
       el_html = ''<p>old</p>'',
       listeners = [] \<rparr>"




section \<open>Properties of the bootstrap\<close>

lemma split_on_not_Nil: "split_on c s \<noteq> []"
  by (induction s) (auto split: list.splits)

text \<open>Splitting is inverted by joining, no piece contains the separator, and there is
  one piece more than there are separators: \<open>split_on\<close> is the list of the
  separator-free segments of the string, in order.\<close>

lemma join_split_on: "js_join c (split_on c s) = s"
proof (induction s)
  case Nil
  show ?case by simp
next
  case (Cons x s)
  obtain p ps where ps: "split_on c s = p # ps"
    using split_on_not_Nil [of c s] by (cases "split_on c s") auto
  with Cons show ?case by (cases ps) auto
qed

lemma split_on_pieces: "p \<in> set (split_on c s) \<Longrightarrow> c \<notin> set p"
  by (induction s arbitrary: p) (auto split: list.splits if_splits)

lemma length_split_on: "length (split_on c s) = Suc (count_list s c)"
  by (induction s) (auto split: list.splits simp: split_on_not_Nil)

lemma js_or_text: "splits v \<Longrightarrow> js_or v (Str []) = Str (text_of v)"
  by (cases v) (auto simp: js_or_def)

text \<open>Where the value read from the container is a string, the suggested prices are
  its pieces; where it is falsy (an absent attribute, but also an attribute that
  \<^verbatim>\<open>el.data\<close> converts to 0, \<^verbatim>\<open>false\<close> or \<^verbatim>\<open>null\<close>) they are the one piece of the
  empty-string default; for every other value the expression throws.\<close>

lemma suggested_prices_splits:
  "splits (el_data ''course-mode-suggested-prices'') \<Longrightarrow>
   suggested_prices el_data =
     Inr (Arr (map Str (split_on CHR '','' (text_of (el_data ''course-mode-suggested-prices'')))))"
  by (simp add: suggested_prices_def js_or_text)

lemma suggested_prices_throws:
  "\<not> splits (el_data ''course-mode-suggested-prices'') \<Longrightarrow>
   suggested_prices el_data = Inl TypeError"
  by (cases "el_data ''course-mode-suggested-prices''")
     (auto simp: suggested_prices_def js_or_def)

lemma suggested_prices_three:
  "suggested_prices three_prices = Inr (Arr [Str ''10'', Str ''25'', Str ''50''])"
  by (simp add: suggested_prices_def three_prices_def js_or_def)

lemma suggested_prices_absent: "suggested_prices no_attributes = Inr (Arr [Str ''''])"
  by (simp add: suggested_prices_def no_attributes_def js_or_def)

text \<open>
  Claim C2.  The suggested prices are said to be always the list of strings obtained by
  splitting the attribute value on commas.  For the attribute value \<^verbatim>\<open>10,25,50\<close> and for
  an absent attribute this is so (\<open>suggested_prices_three\<close>, \<open>suggested_prices_absent\<close>).
  For a container whose attribute holds the single price \<^verbatim>\<open>10\<close>, \<^verbatim>\<open>el.data\<close> returns the
  number 10, which is truthy and has no \<^verbatim>\<open>split\<close> method: the expression throws a
  TypeError instead of giving the one-element list.
\<close>

theorem single_price_throws: "suggested_prices one_price = Inl TypeError"
  by (simp add: suggested_prices_def one_price_def js_or_def)

lemma js_or_attribute: "attribute_string v = Some s \<Longrightarrow> js_or v (Str []) = Str s"
  by (cases v) (auto simp: js_or_def)

text \<open>
  Claim C7, as stated, puts under every key exactly the value of the attribute and lets
  no error surface.  The key \<^verbatim>\<open>suggestedPrices\<close> holds the list of pieces instead: for
  the attribute value \<^verbatim>\<open>10,25,50\<close> the list of three strings, which is not the attribute's
  value.  And for a container whose suggested-prices attribute is read as the number 10
  the entry point throws a TypeError.
\<close>

theorem suggested_prices_not_attribute:
  "three_prices ''course-mode-suggested-prices'' = Str ''10,25,50''
   \<and> pay_and_verify three_prices =
      Inr \<lparr> displaySteps = Undefined, currentStep = Undefined,
            stepInfo = \<lparr>
              intro = \<lparr> introTitle = Undefined, introMsg = Undefined,
                requirements = Undefined \<rparr>,
              make_payment = \<lparr> courseKey = Undefined, minPrice = Undefined,
                suggestedPrices = Arr [Str ''10'', Str ''25'', Str ''50''],
                currency = Undefined, purchaseEndpoint = Undefined \<rparr>,
              payment_confirmation = \<lparr> courseName = Undefined,
                courseStartDate = Undefined, coursewareUrl = Undefined \<rparr>,
              review_photos = \<lparr> fullName = Undefined \<rparr> \<rparr> \<rparr>
   \<and> Arr [Str ''10'', Str ''25'', Str ''50''] \<noteq> Str ''10,25,50''
   \<and> pay_and_verify one_price = Inl TypeError"
  by (simp add: pay_and_verify_def suggested_prices_def three_prices_def one_price_def
      js_or_def)

text \<open>
  Claim C7, amended.  Whenever \<^verbatim>\<open>el.data\<close> returns the suggested-prices attribute as a
  string \<open>s\<close>, or the attribute is absent (then \<open>s\<close> is the empty-string default), the
  options object is produced, every key other than \<^verbatim>\<open>suggestedPrices\<close> holds exactly the
  value \<^verbatim>\<open>el.data\<close> returns for its attribute (\<^verbatim>\<open>undefined\<close> when the attribute is absent,
  with no validation), and \<^verbatim>\<open>suggestedPrices\<close> holds the pieces of \<open>s\<close> split on commas.
  Nothing is said of a suggested-prices attribute that \<^verbatim>\<open>el.data\<close> converts to a value
  that is not a string.
\<close>

theorem bootstrap_configuration:
  assumes "attribute_string (el_data ''course-mode-suggested-prices'') = Some s"
  shows "\<exists>cfg. pay_and_verify el_data = Inr cfg
    \<and> displaySteps cfg = el_data ''display-steps''
    \<and> currentStep cfg = el_data ''current-step''
    \<and> introTitle (intro (stepInfo cfg)) = el_data ''intro-title''
    \<and> introMsg (intro (stepInfo cfg)) = el_data ''intro-msg''
    \<and> requirements (intro (stepInfo cfg)) = el_data ''requirements''
    \<and> courseKey (make_payment (stepInfo cfg)) = el_data ''course-key''
    \<and> minPrice (make_payment (stepInfo cfg)) = el_data ''course-mode-min-price''
    \<and> suggestedPrices (make_payment (stepInfo cfg)) = Arr (map Str (split_on CHR '','' s))
    \<and> currency (make_payment (stepInfo cfg)) = el_data ''course-mode-currency''
    \<and> purchaseEndpoint (make_payment (stepInfo cfg)) = el_data ''purchase-endpoint''
    \<and> courseName (payment_confirmation (stepInfo cfg)) = el_data ''course-name''
    \<and> courseStartDate (payment_confirmation (stepInfo cfg)) = el_data ''course-start-date''
    \<and> coursewareUrl (payment_confirmation (stepInfo cfg)) = el_data ''courseware-url''
    \<and> fullName (review_photos (stepInfo cfg)) = el_data ''full-name''"
  using js_or_attribute [OF assms]
  by (simp add: pay_and_verify_def suggested_prices_def)

text \<open>The scenario of the claim, a container with the display steps, the current step
  \<^verbatim>\<open>intro-step\<close> and the intro title \<^verbatim>\<open>Verify Your Identity\<close> (its suggested-prices
  attribute is absent), and a container with the suggested prices \<^verbatim>\<open>10,25,50\<close>.\<close>

theorem bootstrap_configuration_witness:
  "attribute_string (intro_scenario ''course-mode-suggested-prices'') = Some []
   \<and> (\<exists>cfg. pay_and_verify intro_scenario = Inr cfg
        \<and> introTitle (intro (stepInfo cfg)) = Str ''Verify Your Identity''
        \<and> currentStep cfg = Str ''intro-step''
        \<and> displaySteps cfg = Arr [Str ''intro-step'', Str ''make-payment-step'']
        \<and> introMsg (intro (stepInfo cfg)) = Undefined
        \<and> suggestedPrices (make_payment (stepInfo cfg)) = Arr [Str ''''])
   \<and> attribute_string (three_prices ''course-mode-suggested-prices'') = Some ''10,25,50''
   \<and> (\<exists>cfg. pay_and_verify three_prices = Inr cfg
        \<and> suggestedPrices (make_payment (stepInfo cfg)) =
            Arr [Str ''10'', Str ''25'', Str ''50'']
        \<and> minPrice (make_payment (stepInfo cfg)) = Undefined)"
proof -
  have a: "attribute_string (intro_scenario ''course-mode-suggested-prices'') = Some []"
    by (simp add: intro_scenario_def)
  have b: "attribute_string (three_prices ''course-mode-suggested-prices'') = Some ''10,25,50''"
    by (simp add: three_prices_def)
  have "\<exists>cfg. pay_and_verify intro_scenario = Inr cfg
        \<and> introTitle (intro (stepInfo cfg)) = Str ''Verify Your Identity''
        \<and> currentStep cfg = Str ''intro-step''
        \<and> displaySteps cfg = Arr [Str ''intro-step'', Str ''make-payment-step'']
        \<and> introMsg (intro (stepInfo cfg)) = Undefined
        \<and> suggestedPrices (make_payment (stepInfo cfg)) = Arr [Str '''']"
    using bootstrap_configuration [of intro_scenario "[]"] a
    by (auto simp: intro_scenario_def)
  moreover have "\<exists>cfg. pay_and_verify three_prices = Inr cfg
        \<and> suggestedPrices (make_payment (stepInfo cfg)) =
            Arr [Str ''10'', Str ''25'', Str ''50'']
        \<and> minPrice (make_payment (stepInfo cfg)) = Undefined"
    using bootstrap_configuration [of three_prices "''10,25,50''"] b
    by (auto simp: three_prices_def)
  ultimately show ?thesis
    using a b by blast
qed

section \<open>Properties of the step view\<close>

subsection \<open>Objects and the context merge\<close>

lemma get_prop_eq_None: "get_prop ob k = None \<longleftrightarrow> k \<notin> fst ` set ob"
  by (induction ob) (auto split: option.splits)

lemma get_prop_absent: "k \<notin> fst ` set ob \<Longrightarrow> get_prop ob k = None"
  by (simp add: get_prop_eq_None)

text \<open>On an object proper (no key twice) lookup is lookup in the association list.\<close>

lemma get_prop_distinct: "distinct (map fst ob) \<Longrightarrow> get_prop ob k = map_of ob k"
proof (induction ob)
  case Nil
  show ?case by simp
next
  case (Cons p ob)
  obtain k0 v0 where p: "p = (k0, v0)" by (cases p)
  from Cons.prems have "k0 \<notin> fst ` set ob" and d: "distinct (map fst ob)"
    by (simp_all add: p)
  then have "get_prop ob k0 = None" by (simp add: get_prop_eq_None)
  with Cons.IH [OF d] show ?case
    by (cases "k = k0") (auto simp: p split: option.splits)
qed

lemma get_prop_append:
  "get_prop (xs @ ys) k = (case get_prop ys k of Some x \<Rightarrow> Some x | None \<Rightarrow> get_prop xs k)"
  by (induction xs) (auto split: option.splits)

lemma get_prop_overwrite:
  "get_prop (map (\<lambda>(k', v'). if k' = k then (k', v) else (k', v')) ob) j =
     (if j = k \<and> k \<in> fst ` set ob then Some v else get_prop ob j)"
    (is "get_prop (map ?f ob) j = _")
proof (induction ob)
  case Nil
  show ?case by simp
next
  case (Cons p ob)
  obtain k0 v0 where p: "p = (k0, v0)" by (cases p)
  have "get_prop (map ?f (p # ob)) j =
      (case get_prop (map ?f ob) j of
         Some x \<Rightarrow> Some x
       | None \<Rightarrow> if j = k0 then Some (if k0 = k then v else v0) else None)"
    by (simp add: p)
  also have "\<dots> =
      (case (if j = k \<and> k \<in> fst ` set ob then Some v else get_prop ob j) of
         Some x \<Rightarrow> Some x
       | None \<Rightarrow> if j = k0 then Some (if k0 = k then v else v0) else None)"
    by (simp only: Cons.IH)
  also have "\<dots> = (if j = k \<and> k \<in> fst ` set (p # ob) then Some v else get_prop (p # ob) j)"
    by (cases "get_prop ob j") (auto simp: p get_prop_eq_None get_prop_absent)
  finally show ?case .
qed

lemma get_prop_set_prop:
  "get_prop (set_prop k v ob) j = (if j = k then Some v else get_prop ob j)"
  by (simp add: set_prop_def get_prop_overwrite get_prop_append get_prop_eq_None)

lemma get_prop_extend:
  "get_prop (underscore_extend ob source) k =
     (case get_prop source k of Some x \<Rightarrow> Some x | None \<Rightarrow> get_prop ob k)"
  unfolding underscore_extend_def
proof (induction source arbitrary: ob)
  case Nil
  show ?case by simp
next
  case (Cons p source)
  obtain k0 v0 where p: "p = (k0, v0)" by (cases p)
  show ?case by (simp add: p Cons.IH get_prop_set_prop split: option.splits)
qed

text \<open>
  Claim C4.  In the fetch-success path the template is rendered with the context that
  starts from \<^verbatim>\<open>{nextStepNum, nextStepTitle}\<close> and has every key of the step data laid
  over it: a key of the step data has the step data's value (also the keys
  \<^verbatim>\<open>nextStepNum\<close> and \<^verbatim>\<open>nextStepTitle\<close>), the two starting keys otherwise have the
  view's values, and there is no other key.
\<close>

theorem context_merge:
  "get_prop (context_of v) k =
     (case get_prop (stepData v) k of
        Some x \<Rightarrow> Some x
      | None \<Rightarrow> if k = ''nextStepNum'' then Some (nextStepNum v)
                else if k = ''nextStepTitle'' then Some (nextStepTitle v)
                else None)
   \<and> handleResponse template v data =
     (case template data (context_of v) of
        Inl e \<Rightarrow> Inl e
      | Inr h \<Rightarrow> Inr (v\<lparr>renderedHtml := Some h, el_html := h\<rparr>, [Html (Some h), PostRender]))"
  by (simp add: context_of_def get_prop_extend handleResponse_def postRender_def
      split: option.splits sum.splits)

subsection \<open>The paths of \<^verbatim>\<open>render\<close> and \<^verbatim>\<open>handleResponse\<close>\<close>

lemma initialize_template: "initialize [] (Some template_options) = Inr template_view"
  by (simp add: template_options_def template_view_def js_or_def)

lemma initialize_stale: "initialize ''<p>old</p>'' (Some no_template_options) = Inr stale_view"
  by (simp add: no_template_options_def stale_view_def js_or_def)

lemma render_cached:
  "renderedHtml v = Some h \<Longrightarrow> h \<noteq> [] \<Longrightarrow>
   render v = (v\<lparr>el_html := h\<rparr>, [Html (Some h), PostRender])"
  by (simp add: render_def postRender_def)

lemma render_fetch:
  "not_rendered (renderedHtml v) \<Longrightarrow> truthy (templateUrl v) \<Longrightarrow>
   render v = (v, [Fetch (templateUrl v)])"
  by (simp add: render_def)

lemma render_no_template:
  "renderedHtml v = None \<Longrightarrow> \<not> truthy (templateUrl v) \<Longrightarrow>
   render v = (v, [Html None, PostRender])"
  by (simp add: render_def postRender_def)


lemma handleResponse_Inr:
  "template data (context_of v) = Inr h \<Longrightarrow>
   handleResponse template v data =
     Inr (v\<lparr>renderedHtml := Some h, el_html := h\<rparr>, [Html (Some h), PostRender])"
  by (simp add: handleResponse_def postRender_def)

lemma handleResponse_cases:
  "handleResponse template v data = Inr (v', es) \<Longrightarrow>
   \<exists>h. v' = v\<lparr>renderedHtml := Some h, el_html := h\<rparr> \<and> es = [Html (Some h), PostRender]"
  by (auto simp: handleResponse_def postRender_def split: sum.splits)

lemma run_Nil: "run template p [] = p"
  by (simp add: run_def)

lemma run_Cons: "run template p (t # ts) = run template (step template p t) ts"
  by (simp add: run_def)

lemma run_append: "run template p (ts @ us) = run template (run template p ts) us"
  by (simp add: run_def)

lemma intro_page_reached:
  "run plain_text (load template_view) [CallRender, Response 0 ''<h1>Intro</h1>''] = intro_page"
  by (simp add: run_Cons run_Nil load_def template_view_def render_def handleResponse_def
      plain_text_def postRender_def drop_nth_def intro_page_def)

subsection \<open>Caching\<close>

lemma fetched_append: "fetched (es @ fs) = fetched es @ fetched fs"
  by (induction es rule: fetched.induct) simp_all

lemma fetched_nextStep: "fetched (snd (nextStep v)) = []"
proof -
  have "fetched (map (\<lambda>l. Notify l args) ls) = []" for args ls
    by (induction ls) simp_all
  then show ?thesis
    by (simp add: nextStep_def triggerEvents_def fetched_append)
qed

lemma fetched_cached_turn: "fetched (cached_turn h v t) = []"
  by (cases t) (simp_all add: fetched_nextStep)

lemma cached_turn_el_html: "cached_turn h (v\<lparr>el_html := x\<rparr>) t = cached_turn h v t"
  by (cases t) (simp_all add: nextStep_def callbacks_def)

lemma blank_page_reached:
  "run plain_text (load template_view) [CallRender, Response 0 []] = blank_page"
  by (simp add: run_Cons run_Nil load_def template_view_def render_def handleResponse_def
      plain_text_def postRender_def drop_nth_def blank_page_def)

text \<open>One turn on a page with a non-empty cached HTML and no request in flight.\<close>

lemma step_cached:
  assumes "renderedHtml (the_view p) = Some h" and "h \<noteq> []" and "in_flight p = []"
  shows "step template p t =
           p\<lparr>the_view := (if t = CallRender then (the_view p)\<lparr>el_html := h\<rparr> else the_view p),
             trace := trace p @ cached_turn h (the_view p) t\<rparr>"
proof (cases t)
  case CallRender
  with assms show ?thesis by (simp add: render_cached)
next
  case CallNextStep
  then show ?thesis by (simp add: nextStep_def)
next
  case (Response i data)
  with assms show ?thesis by simp
next
  case (Failure i)
  with assms show ?thesis by simp
qed

lemma run_cached:
  assumes "renderedHtml (the_view p) = Some h" and "h \<noteq> []" and "in_flight p = []"
  shows "trace (run template p ts) = trace p @ concat (map (cached_turn h (the_view p)) ts)
       \<and> in_flight (run template p ts) = []
       \<and> renderedHtml (the_view (run template p ts)) = Some h
       \<and> listeners (the_view (run template p ts)) = listeners (the_view p)
       \<and> el_html (the_view (run template p ts)) =
           (if CallRender \<in> set ts then h else el_html (the_view p))"
  using assms
proof (induction ts arbitrary: p)
  case Nil
  then show ?case by (simp add: run_Nil)
next
  case (Cons t ts)
  let ?q = "step template p t"
  have q: "?q = p\<lparr>the_view := (if t = CallRender then (the_view p)\<lparr>el_html := h\<rparr>
                               else the_view p),
                  trace := trace p @ cached_turn h (the_view p) t\<rparr>"
    using Cons.prems by (rule step_cached)
  have r: "renderedHtml (the_view ?q) = Some h" and f: "in_flight ?q = []"
    unfolding q using Cons.prems by simp_all
  have c: "cached_turn h (the_view ?q) = cached_turn h (the_view p)"
    unfolding q by (rule ext) (simp add: cached_turn_el_html)
  have l: "listeners (the_view ?q) = listeners (the_view p)"
    unfolding q by simp
  have e: "el_html (the_view ?q) = (if t = CallRender then h else el_html (the_view p))"
    unfolding q by simp
  have tr: "trace ?q = trace p @ cached_turn h (the_view p) t"
    unfolding q by simp
  note IH = Cons.IH [OF r Cons.prems(2) f, unfolded c l e tr]
  show ?case
    unfolding run_Cons using IH by (auto simp del: step.simps)
qed

text \<open>
  Claim C1, as stated, lets no render call after a completed fetch-based render fetch
  again.  The guard \<^verbatim>\<open>!this.renderedHtml\<close> is a truthiness test, and a template that
  renders to the empty string leaves a cached value that is falsy: the fetch-based
  render completes, the empty string is cached, and the next render call fetches the
  same template a second time.  The cached value is also not final while another
  request is in flight: after two overlapping render calls the first response caches
  the rendered HTML, the second response replaces it (here by the empty string), and
  the render call after that issues a third request.
\<close>

theorem empty_render_fetched_again:
  "trace (run plain_text (load template_view) [CallRender, Response 0 [], CallRender]) =
     [Fetch (Str ''/static/intro_step.underscore''), Html (Some []), PostRender,
      Fetch (Str ''/static/intro_step.underscore'')]
   \<and> renderedHtml (the_view (run plain_text (load template_view) [CallRender, Response 0 []]))
       = Some []
   \<and> renderedHtml (the_view (run plain_text (load template_view)
        [CallRender, CallRender, Response 0 ''<h1>Intro</h1>''])) = Some ''<h1>Intro</h1>''
   \<and> trace (run plain_text (load template_view)
        [CallRender, CallRender, Response 0 ''<h1>Intro</h1>'', Response 0 [], CallRender]) =
     [Fetch (Str ''/static/intro_step.underscore''),
      Fetch (Str ''/static/intro_step.underscore''),
      Html (Some ''<h1>Intro</h1>''), PostRender, Html (Some []), PostRender,
      Fetch (Str ''/static/intro_step.underscore'')]"
  by (simp add: run_Cons run_Nil load_def template_view_def render_def handleResponse_def
      plain_text_def postRender_def drop_nth_def context_of_def)

text \<open>
  Claim C1, amended.  Once a fetch-based render has completed and cached a non-empty
  HTML string and no request is in flight any more, every subsequent render call,
  whatever other turns come between, reuses the cached HTML: in every sequence of turns
  each render call writes the cached HTML and invokes the hook again (the log grows by
  exactly these two events for each render call, and by the notifications of each
  next-step call), no request is ever issued, the cached value stays, and once a render
  call has run the root element shows the cached HTML.  While the cached value is the
  empty string, a render call of a view with a template locator writes nothing and
  issues a request for the template again.
\<close>

theorem render_reuses_cached_html:
  "(renderedHtml (the_view p) = Some h \<and> h \<noteq> [] \<and> in_flight p = [] \<longrightarrow>
      trace (run template p ts) = trace p @ concat (map (cached_turn h (the_view p)) ts)
      \<and> fetched (trace (run template p ts)) = fetched (trace p)
      \<and> in_flight (run template p ts) = []
      \<and> renderedHtml (the_view (run template p ts)) = Some h
      \<and> el_html (the_view (run template p ts)) =
          (if CallRender \<in> set ts then h else el_html (the_view p)))
   \<and> (renderedHtml (the_view q) = Some [] \<and> truthy (templateUrl (the_view q)) \<longrightarrow>
      step template q CallRender =
        q\<lparr>in_flight := in_flight q @ [templateUrl (the_view q)],
          trace := trace q @ [Fetch (templateUrl (the_view q))]\<rparr>)"
proof -
  have "trace (run template p ts) = trace p @ concat (map (cached_turn h (the_view p)) ts)
      \<and> fetched (trace (run template p ts)) = fetched (trace p)
      \<and> in_flight (run template p ts) = []
      \<and> renderedHtml (the_view (run template p ts)) = Some h
      \<and> el_html (the_view (run template p ts)) =
          (if CallRender \<in> set ts then h else el_html (the_view p))"
    if a: "renderedHtml (the_view p) = Some h" "h \<noteq> []" "in_flight p = []"
  proof -
    have "fetched (concat (map (cached_turn h v) us)) = []" for v us
      by (induction us) (simp_all add: fetched_append fetched_cached_turn)
    with run_cached [OF a, of template ts] show ?thesis
      by (simp add: fetched_append)
  qed
  moreover have "step template q CallRender =
        q\<lparr>in_flight := in_flight q @ [templateUrl (the_view q)],
          trace := trace q @ [Fetch (templateUrl (the_view q))]\<rparr>"
    if "renderedHtml (the_view q) = Some []" "truthy (templateUrl (the_view q))"
    using that by (simp add: render_fetch)
  ultimately show ?thesis by blast
qed

theorem render_reuses_cached_html_witness:
  "renderedHtml (the_view intro_page) = Some ''<h1>Intro</h1>''
   \<and> ''<h1>Intro</h1>'' \<noteq> [] \<and> in_flight intro_page = []
   \<and> trace (run plain_text intro_page
        [CallRender, Response 0 [], Failure 0, CallNextStep, CallRender]) =
       [Fetch (Str ''/static/intro_step.underscore''),
        Html (Some ''<h1>Intro</h1>''), PostRender,
        Html (Some ''<h1>Intro</h1>''), PostRender,
        Html (Some ''<h1>Intro</h1>''), PostRender]
   \<and> el_html (the_view (run plain_text intro_page
        [CallRender, Response 0 [], Failure 0, CallNextStep, CallRender])) = ''<h1>Intro</h1>''
   \<and> renderedHtml (the_view blank_page) = Some [] \<and> truthy (templateUrl (the_view blank_page))
   \<and> trace (step plain_text blank_page CallRender) =
       [Fetch (Str ''/static/intro_step.underscore''), Html (Some []), PostRender,
        Fetch (Str ''/static/intro_step.underscore'')]"
proof -
  have h: "renderedHtml (the_view intro_page) = Some ''<h1>Intro</h1>''
      \<and> ''<h1>Intro</h1>'' \<noteq> [] \<and> in_flight intro_page = []"
    by (simp add: intro_page_def)
  have b: "renderedHtml (the_view blank_page) = Some []
      \<and> truthy (templateUrl (the_view blank_page))"
    by (simp add: blank_page_def template_view_def)
  have t: "trace intro_page = [Fetch (Str ''/static/intro_step.underscore''),
        Html (Some ''<h1>Intro</h1>''), PostRender]"
    and n: "snd (nextStep (the_view intro_page)) = []"
    by (simp_all add: intro_page_def template_view_def nextStep_def callbacks_def
        triggerEvents_def)
  have u: "trace blank_page @ [Fetch (templateUrl (the_view blank_page))] =
       [Fetch (Str ''/static/intro_step.underscore''), Html (Some []), PostRender,
        Fetch (Str ''/static/intro_step.underscore'')]"
    by (simp add: blank_page_def template_view_def)
  from render_reuses_cached_html [where p = intro_page and h = "''<h1>Intro</h1>''"
      and template = plain_text and q = blank_page
      and ts = "[CallRender, Response 0 [], Failure 0, CallNextStep, CallRender]"] h b
  have "trace (run plain_text intro_page
          [CallRender, Response 0 [], Failure 0, CallNextStep, CallRender]) =
        trace intro_page @ concat (map (cached_turn ''<h1>Intro</h1>'' (the_view intro_page))
          [CallRender, Response 0 [], Failure 0, CallNextStep, CallRender])"
    and "el_html (the_view (run plain_text intro_page
          [CallRender, Response 0 [], Failure 0, CallNextStep, CallRender])) = ''<h1>Intro</h1>''"
    and "step plain_text blank_page CallRender =
        blank_page\<lparr>in_flight := in_flight blank_page @ [templateUrl (the_view blank_page)],
          trace := trace blank_page @ [Fetch (templateUrl (the_view blank_page))]\<rparr>"
    by simp_all
  with h b t n u show ?thesis
    by (simp del: step.simps)
qed

subsection \<open>A view without template\<close>

text \<open>
  Claim C3, as stated, has the render call set the root element's content to empty
  content.  With no cached output the call is \<^verbatim>\<open>$(this.el).html(undefined)\<close>, which
  writes nothing: a view constructed on an element that shows \<^verbatim>\<open><p>old</p>\<close> still
  shows it after the render call.
\<close>

theorem stale_content_kept:
  "initialize ''<p>old</p>'' (Some no_template_options) = Inr stale_view
   \<and> run plain_text (load stale_view) [CallRender] =
       \<lparr>the_view = stale_view, in_flight = [], trace = [Html None, PostRender]\<rparr>
   \<and> el_html stale_view = ''<p>old</p>''
   \<and> ''<p>old</p>'' \<noteq> ''''"
proof -
  have "run plain_text (load stale_view) [CallRender] =
       \<lparr>the_view = stale_view, in_flight = [], trace = [Html None, PostRender]\<rparr>"
    by (simp add: run_Cons run_Nil load_def render_def postRender_def stale_view_def)
  moreover have "el_html stale_view = ''<p>old</p>''"
    by (simp add: stale_view_def)
  ultimately show ?thesis
    using initialize_stale by simp
qed

text \<open>
  Claim C3, amended.  For every step view constructed with no template locator, a
  single render call leaves the root element's content as it was (empty when the
  element was empty), invokes the hook exactly once, in the same turn, and issues no
  request.
\<close>

theorem render_without_template:
  assumes "\<not> truthy (obj_templateUrl obj)"
  shows "\<exists>v. initialize el0 (Some obj) = Inr v
       \<and> renderedHtml v = None \<and> el_html v = el0
       \<and> step template (load v) CallRender =
           \<lparr>the_view = v, in_flight = [], trace = [Html None, PostRender]\<rparr>"
  using assms by (simp add: js_or_def load_def render_def postRender_def)

theorem render_without_template_witness:
  "\<not> truthy (obj_templateUrl no_template_options)
   \<and> (\<exists>v. initialize [] (Some no_template_options) = Inr v
       \<and> renderedHtml v = None \<and> el_html v = []
       \<and> step plain_text (load v) CallRender =
           \<lparr>the_view = v, in_flight = [], trace = [Html None, PostRender]\<rparr>)"
proof -
  have h: "\<not> truthy (obj_templateUrl no_template_options)"
    by (simp add: no_template_options_def)
  from render_without_template [OF h, of "[]" plain_text] h show ?thesis
    by simp
qed

subsection \<open>Order of the content write and the hook\<close>











subsection \<open>Failure of the fetch\<close>

text \<open>
  Claim C6.  When the template fetch fails no handler runs: the turn changes nothing of
  the view (the root element's content and the cached output stay as they were) and
  logs nothing (no content write, no hook call, no message).  For a view with a
  template and no cached output, a render call followed by the failure of its request
  leaves the view exactly as it was, with the cached output still absent; the log
  holds the request and nothing else.
\<close>

theorem fetch_failure_unhandled:
  "the_view (step template p (Failure i)) = the_view p
   \<and> trace (step template p (Failure i)) = trace p
   \<and> (truthy (templateUrl v) \<and> renderedHtml v = None \<longrightarrow>
        run template (load v) [CallRender, Failure 0] =
          \<lparr>the_view = v, in_flight = [], trace = [Fetch (templateUrl v)]\<rparr>
        \<and> renderedHtml (the_view (run template (load v) [CallRender, Failure 0])) = None
        \<and> el_html (the_view (run template (load v) [CallRender, Failure 0])) = el_html v)"
  by (simp add: run_Cons run_Nil load_def render_def drop_nth_def)

theorem fetch_failure_unhandled_witness:
  "truthy (templateUrl template_view) \<and> renderedHtml template_view = None
   \<and> run plain_text (load template_view) [CallRender, Failure 0] =
       \<lparr>the_view = template_view, in_flight = [],
        trace = [Fetch (Str ''/static/intro_step.underscore'')]\<rparr>
   \<and> el_html (the_view (run plain_text (load template_view) [CallRender, Failure 0])) = []"
proof -
  have h: "truthy (templateUrl template_view) \<and> renderedHtml template_view = None"
    and u: "templateUrl template_view = Str ''/static/intro_step.underscore''"
    and e: "el_html template_view = []"
    by (simp_all add: template_view_def)
  from fetch_failure_unhandled [of plain_text "load template_view" 0 template_view] h
  have "run plain_text (load template_view) [CallRender, Failure 0] =
          \<lparr>the_view = template_view, in_flight = [],
           trace = [Fetch (templateUrl template_view)]\<rparr>"
    by blast
  with h u e show ?thesis by simp
qed

subsection \<open>The next-step signal\<close>

lemma count_list_Notify:
  "count_list (map (\<lambda>l. Notify l args) (map snd (filter (\<lambda>r. fst r = name) rs)))
     (Notify l args') = (if args' = args then count_list rs (name, l) else 0)"
  by (induction rs) auto

lemma count_triggerEvents:
  "count_list (triggerEvents (callbacks name v) args) (Notify l args') =
     (if args' = args then count_list (listeners v) (name, l) else 0)"
  by (simp only: triggerEvents_def callbacks_def count_list_Notify)

lemma length_triggerEvents:
  "length (triggerEvents (callbacks name v) args) =
     length (filter (\<lambda>r. fst r = name) (listeners v))"
  by (simp add: triggerEvents_def callbacks_def)

text \<open>
  Claim C8.  A call of \<^verbatim>\<open>nextStep\<close> leaves every field of the view unchanged and emits
  the one signal \<^verbatim>\<open>next-step\<close> without payload: each registration under \<^verbatim>\<open>next-step\<close>
  is called exactly once, with no argument; each registration under the catch-all name
  is called exactly once, with the event's name and nothing after it; no other call is
  made (the number of calls is the number of these registrations).  The turn of the
  page changes neither the view nor the requests in flight.
\<close>

theorem nextStep_signal:
  "fst (nextStep v) = v
   \<and> count_list (snd (nextStep v)) (Notify l []) = count_list (listeners v) (''next-step'', l)
   \<and> count_list (snd (nextStep v)) (Notify l [Str ''next-step'']) =
       count_list (listeners v) (''all'', l)
   \<and> length (snd (nextStep v)) =
       length (filter (\<lambda>r. fst r = ''next-step'') (listeners v))
       + length (filter (\<lambda>r. fst r = ''all'') (listeners v))
   \<and> the_view (step template p CallNextStep) = the_view p
   \<and> in_flight (step template p CallNextStep) = in_flight p
   \<and> trace (step template p CallNextStep) = trace p @ snd (nextStep (the_view p))"
  by (simp add: nextStep_def count_triggerEvents length_triggerEvents)

text \<open>A registry with two callbacks for \<^verbatim>\<open>next-step\<close>, a catch-all callback and a
  callback for another event: the first three are called, in the order Backbone calls
  them, and the fourth is not.\<close>

lemma nextStep_observed:
  "nextStep observed_view =
     (observed_view, [Notify 1 [], Notify 3 [], Notify 2 [Str ''next-step'']])"
  by (simp add: nextStep_def triggerEvents_def callbacks_def observed_view_def)

subsection \<open>Overlapping render calls\<close>

text \<open>
  Claim C9.  Render calls while a fetch is in flight are not guarded.  For a view with
  a template and no cached output there is a schedule, two render calls before the
  first response, in which the same template URL is requested twice; when both
  responses arrive (with bodies the template engine renders) the hook is invoked
  twice.
\<close>

theorem overlapping_render_refetches:
  assumes "truthy (templateUrl v)" and "renderedHtml v = None"
    and "template d1 (context_of v) = Inr h1" and "template d2 (context_of v) = Inr h2"
  shows "in_flight (run template (load v) [CallRender, CallRender]) =
           [templateUrl v, templateUrl v]
       \<and> trace (run template (load v) [CallRender, CallRender, Response 0 d1, Response 0 d2]) =
           [Fetch (templateUrl v), Fetch (templateUrl v),
            Html (Some h1), PostRender, Html (Some h2), PostRender]
       \<and> count_list (trace (run template (load v)
             [CallRender, CallRender, Response 0 d1, Response 0 d2])) PostRender = 2"
proof -
  let ?v1 = "v\<lparr>renderedHtml := Some h1, el_html := h1\<rparr>"
  have c: "context_of ?v1 = context_of v"
    by (simp add: context_of_def)
  have r: "render v = (v, [Fetch (templateUrl v)])"
    using assms(1,2) by (simp add: render_fetch)
  have h1: "handleResponse template v d1 = Inr (?v1, [Html (Some h1), PostRender])"
    using assms(3) by (rule handleResponse_Inr)
  have h2: "handleResponse template ?v1 d2 =
      Inr (?v1\<lparr>renderedHtml := Some h2, el_html := h2\<rparr>, [Html (Some h2), PostRender])"
    using assms(4) c by (simp add: handleResponse_Inr)
  show ?thesis
    by (simp add: run_Cons run_Nil load_def r h1 h2 drop_nth_def)
qed

theorem overlapping_render_refetches_witness:
  "truthy (templateUrl template_view) \<and> renderedHtml template_view = None
   \<and> plain_text ''<h1>Intro</h1>'' (context_of template_view) = Inr ''<h1>Intro</h1>''
   \<and> in_flight (run plain_text (load template_view) [CallRender, CallRender]) =
       [Str ''/static/intro_step.underscore'', Str ''/static/intro_step.underscore'']
   \<and> trace (run plain_text (load template_view)
        [CallRender, CallRender, Response 0 ''<h1>Intro</h1>'', Response 0 ''<h1>Intro</h1>'']) =
       [Fetch (Str ''/static/intro_step.underscore''),
        Fetch (Str ''/static/intro_step.underscore''),
        Html (Some ''<h1>Intro</h1>''), PostRender,
        Html (Some ''<h1>Intro</h1>''), PostRender]"
proof -
  have t: "truthy (templateUrl template_view)" and n: "renderedHtml template_view = None"
    and u: "templateUrl template_view = Str ''/static/intro_step.underscore''"
    by (simp_all add: template_view_def)
  have d: "plain_text ''<h1>Intro</h1>'' (context_of template_view) = Inr ''<h1>Intro</h1>''"
    by (simp add: plain_text_def)
  from overlapping_render_refetches [where v = template_view and template = plain_text
      and ?d1.0 = "''<h1>Intro</h1>''" and ?d2.0 = "''<h1>Intro</h1>''"
      and ?h1.0 = "''<h1>Intro</h1>''" and ?h2.0 = "''<h1>Intro</h1>''", OF t n d d]
    t n d u
  show ?thesis
    by simp
qed

subsection \<open>The configuration fields are never written\<close>

lemma render_config:
  "templateUrl (fst (render v)) = templateUrl v \<and> stepData (fst (render v)) = stepData v
   \<and> nextStepNum (fst (render v)) = nextStepNum v
   \<and> nextStepTitle (fst (render v)) = nextStepTitle v
   \<and> listeners (fst (render v)) = listeners v"
  by (cases "renderedHtml v") (auto simp: render_def postRender_def)

lemma step_config:
  "templateUrl (the_view (step template p t)) = templateUrl (the_view p)
   \<and> stepData (the_view (step template p t)) = stepData (the_view p)
   \<and> nextStepNum (the_view (step template p t)) = nextStepNum (the_view p)
   \<and> nextStepTitle (the_view (step template p t)) = nextStepTitle (the_view p)
   \<and> listeners (the_view (step template p t)) = listeners (the_view p)"
proof (cases t)
  case CallRender
  then show ?thesis
    using render_config [of "the_view p"] by (cases "render (the_view p)") simp
next
  case CallNextStep
  then show ?thesis by (simp add: nextStep_def)
next
  case (Response i data)
  show ?thesis
  proof (cases "handleResponse template (the_view p) data")
    case (Inl e)
    with Response show ?thesis by simp
  next
    case (Inr r)
    obtain v' es where r: "r = (v', es)" by (cases r)
    from handleResponse_cases [of template "the_view p" data v' es] Inr r
    obtain h where "v' = (the_view p)\<lparr>renderedHtml := Some h, el_html := h\<rparr>" by auto
    with Response Inr r show ?thesis by simp
  qed
next
  case (Failure i)
  then show ?thesis by simp
qed

text \<open>
  Claim C10.  Neither \<^verbatim>\<open>render\<close> nor \<^verbatim>\<open>handleResponse\<close> writes a configuration field:
  after every sequence of turns (render calls, responses, failures, next-step calls) the
  template locator, the step data, the next step's number and title (and the listeners)
  are those of the page the sequence started from, for a constructed view those set by
  \<^verbatim>\<open>initialize\<close>.  The context merge works on the context and leaves the step data as it is.
\<close>

theorem render_keeps_configuration:
  "templateUrl (the_view (run template p ts)) = templateUrl (the_view p)
   \<and> stepData (the_view (run template p ts)) = stepData (the_view p)
   \<and> nextStepNum (the_view (run template p ts)) = nextStepNum (the_view p)
   \<and> nextStepTitle (the_view (run template p ts)) = nextStepTitle (the_view p)
   \<and> listeners (the_view (run template p ts)) = listeners (the_view p)"
proof (induction ts arbitrary: p)
  case Nil
  show ?case by (simp add: run_Nil)
next
  case (Cons t ts)
  show ?case
    using Cons.IH [of "step template p t"] step_config [of template p t]
    by (simp add: run_Cons del: step.simps)
qed

end
